theory Spec2Isabelle
  imports Main "HOL-Library.Multiset"
begin

section \<open>Strings and paths of the Go standard library\<close>

text \<open>
  Go strings are byte sequences; they are modelled as \<^typ>\<open>string\<close>. The functions of
  this section are the library calls that \<^verbatim>\<open>diff.go\<close> makes on strings
  (\<^verbatim>\<open>strings.Replace\<close>, \<^verbatim>\<open>strings.Split\<close>, \<^verbatim>\<open>strings.Join\<close>,
  \<^verbatim>\<open>filepath.Join\<close>), on ASCII text.
\<close>

abbreviation LF :: char where
  "LF \<equiv> CHR 0x0A"

text \<open>
  \<^verbatim>\<open>strings.Replace(s, old, new, n)\<close>: the first \<open>n\<close> non-overlapping instances of
  \<open>old\<close> are replaced, all of them when \<open>n < 0\<close>. An empty \<open>old\<close> matches before
  every character and at the end.
\<close>

function strings_Replace :: "string \<Rightarrow> string \<Rightarrow> string \<Rightarrow> int \<Rightarrow> string" where
  "strings_Replace [] old new n = (if n = 0 then [] else if old = [] then new else [])"
| "strings_Replace (c # cs) old new n =
     (if n = 0 then c # cs
      else if old = [] then new @ c # strings_Replace cs old new (n - 1)
      else if take (length old) (c # cs) = old
        then new @ strings_Replace (drop (length old) (c # cs)) old new (n - 1)
      else c # strings_Replace cs old new n)"
  by pat_completeness auto
termination
  by (relation "measure (\<lambda>(s, old, new, n). length s)") auto

text \<open>
  \<^verbatim>\<open>strings.Split(s, sep)\<close>: the pieces of \<open>s\<close> between the instances of \<open>sep\<close>;
  one piece more than there are instances. An empty \<open>sep\<close> splits after every character.
\<close>

function Split_from :: "string \<Rightarrow> string \<Rightarrow> string \<Rightarrow> string list" where
  "Split_from piece [] sep = [piece]"
| "Split_from piece (c # cs) sep =
     (if sep = [] then Split_from (piece @ [c]) cs sep
      else if take (length sep) (c # cs) = sep
        then piece # Split_from [] (drop (length sep) (c # cs)) sep
      else Split_from (piece @ [c]) cs sep)"
  by pat_completeness auto
termination
  by (relation "measure (\<lambda>(piece, s, sep). length s)") auto

definition strings_Split :: "string \<Rightarrow> string \<Rightarrow> string list" where
  "strings_Split s sep = (if sep = [] then map (\<lambda>c. [c]) s else Split_from [] s sep)"

text \<open>\<^verbatim>\<open>strings.Join(elems, sep)\<close>.\<close>

fun strings_Join :: "string list \<Rightarrow> string \<Rightarrow> string" where
  "strings_Join [] sep = []"
| "strings_Join [e] sep = e"
| "strings_Join (e # es) sep = e @ sep @ strings_Join es sep"

text \<open>
  \<^verbatim>\<open>filepath.Clean\<close> on Unix, element by element: empty elements and \<^verbatim>\<open>.\<close> are
  dropped, \<^verbatim>\<open>..\<close> removes the element before it, is dropped at the root, and is kept
  at the start of a relative path. \<open>done\<close> holds the elements kept so far, last first.
\<close>

fun Clean_elems :: "bool \<Rightarrow> string list \<Rightarrow> string list \<Rightarrow> string list" where
  "Clean_elems rooted done [] = rev done"
| "Clean_elems rooted done (e # es) =
     (if e = [] then Clean_elems rooted done es
      else if e = ''.'' then Clean_elems rooted done es
      else if e = ''..'' then
        (case done of
           [] \<Rightarrow> if rooted then Clean_elems rooted [] es else Clean_elems rooted [e] es
         | d # ds \<Rightarrow> if d = ''..'' then Clean_elems rooted (e # done) es
                     else Clean_elems rooted ds es)
      else Clean_elems rooted (e # done) es)"

definition filepath_Clean :: "string \<Rightarrow> string" where
  "filepath_Clean p =
     (let rooted = (take 1 p = ''/'');
          body = strings_Join (Clean_elems rooted [] (strings_Split p ''/'')) ''/''
      in if rooted then ''/'' @ body else if body = [] then ''.'' else body)"

text \<open>
  \<^verbatim>\<open>filepath.Join(elem...)\<close>: the elements from the first non-empty one on, joined
  with the separator and cleaned; the empty string when every element is empty.
\<close>

definition filepath_Join :: "string list \<Rightarrow> string" where
  "filepath_Join elem =
     (case dropWhile (\<lambda>e. e = []) elem of
        [] \<Rightarrow> []
      | e # es \<Rightarrow> filepath_Clean (strings_Join (e # es) ''/''))"

section \<open>DiffName\<close>

text \<open>
  Modelled from the spec: the package \<^verbatim>\<open>manifest\<close> is not among the sources. A manifest
  is read through \<^verbatim>\<open>APIVersion()\<close>, \<^verbatim>\<open>Kind()\<close>, \<^verbatim>\<open>Metadata().Namespace()\<close> and
  \<^verbatim>\<open>Metadata().Name()\<close>, the four string fields of the spec's ResourceIdentity.
\<close>

record Metadata =
  Namespace :: string
  Name :: string

record Manifest =
  APIVersion :: string
  Kind :: string
  Metadata :: Metadata

text \<open>\<^verbatim>\<open>fmt.Sprintf("%s.%s.%s.%s", a, b, c, d)\<close>.\<close>

definition Sprintf_dotted :: "string \<Rightarrow> string \<Rightarrow> string \<Rightarrow> string \<Rightarrow> string" where
  "Sprintf_dotted a b c d = a @ ''.'' @ b @ ''.'' @ c @ ''.'' @ d"

definition DiffName :: "Manifest \<Rightarrow> string" where
  "DiffName m =
     strings_Replace
       (Sprintf_dotted (APIVersion m) (Kind m) (Namespace (Metadata m)) (Name (Metadata m)))
       ''/'' ''-'' (- 1)"

section \<open>Processes, errors and the file system\<close>

text \<open>
  The world outside the program. A Go \<^verbatim>\<open>error\<close> is either an \<^verbatim>\<open>*exec.ExitError\<close>
  (the process ran and ended unsuccessfully: its \<^verbatim>\<open>ExitCode()\<close> and its message) or
  any other error value, of which only the message is kept.
\<close>

datatype error = ExitError int string | OtherError string

fun Error :: "error \<Rightarrow> string" where
  "Error (ExitError code msg) = msg"
| "Error (OtherError msg) = msg"

text \<open>
  How a started process ends, or that it could not be run: \<open>Exit code msg\<close> is a process
  that ended with the status \<open>code\<close> (\<open>- 1\<close> when a signal ended it), described by
  \<open>msg\<close> (\<^verbatim>\<open>ProcessState.String()\<close>); \<open>NotRun msg\<close> is a process that did not start
  or whose streams could not be copied.
\<close>

datatype run_status = Exit int string | NotRun string

datatype stdin = DevNull | Inherit | Reader string

datatype node = Dir | File string

type_synonym filesystem = "string \<Rightarrow> node option"

text \<open>
  A command as \<^verbatim>\<open>exec.Command\<close> builds it: the executable, the arguments with the
  name first, the error of the path lookup, and where its standard input comes from.
\<close>

record Cmd =
  Path :: string
  Args :: "string list"
  Err :: "error option"
  Stdin :: stdin

text \<open>
  What the program cannot decide: where executables are found (\<open>Inl\<close> is the message
  of a failed lookup), what a process prints on its standard output and how it ends, the
  name drawn for a temporary directory, and which directory creations and file writes the
  system refuses (with the message of the error). The errors of lookups, directory
  creations and file writes are never exit errors.
\<close>

record env =
  LookPath :: "string \<Rightarrow> string + string"
  process :: "string \<Rightarrow> string list \<Rightarrow> stdin \<Rightarrow> filesystem \<Rightarrow> string \<times> run_status"
  os_TempDir :: string
  random_suffix :: string
  mkdir_error :: "string \<Rightarrow> string option"
  write_error :: "string \<Rightarrow> string option"

text \<open>
  \<^verbatim>\<open>exec.Command(name, arg...)\<close>: a name without a path separator is looked up; a
  failed lookup is kept in the command and reported when it is run.
\<close>

definition exec_Command :: "env \<Rightarrow> string \<Rightarrow> string list \<Rightarrow> Cmd" where
  "exec_Command e name arg =
     (if name = [] then \<lparr>Path = name, Args = name # arg, Err = None, Stdin = DevNull\<rparr>
      else if CHR ''/'' \<in> set name
        then \<lparr>Path = name, Args = name # arg, Err = None, Stdin = DevNull\<rparr>
      else (case LookPath e name of
              Inr lp \<Rightarrow> \<lparr>Path = lp, Args = name # arg, Err = None, Stdin = DevNull\<rparr>
            | Inl msg \<Rightarrow>
                \<lparr>Path = name, Args = name # arg, Err = Some (OtherError msg), Stdin = DevNull\<rparr>))"

text \<open>
  \<^verbatim>\<open>cmd.Run()\<close> with the standard output captured: the captured bytes and the error.
  The error is nil exactly when the process ran and ended with status 0.
\<close>

definition cmd_Run :: "env \<Rightarrow> Cmd \<Rightarrow> filesystem \<Rightarrow> string \<times> error option" where
  "cmd_Run e c fs =
     (case Err c of
        Some err \<Rightarrow> ([], Some err)
      | None \<Rightarrow>
          (case process e (Path c) (Args c) (Stdin c) fs of
             (out, Exit code msg) \<Rightarrow>
               if code = 0 then (out, None) else (out, Some (ExitError code msg))
           | (out, NotRun msg) \<Rightarrow> (out, Some (OtherError msg))))"

text \<open>\<^verbatim>\<open>cmd.Output()\<close>: runs the command and returns its standard output.\<close>

definition cmd_Output :: "env \<Rightarrow> Cmd \<Rightarrow> filesystem \<Rightarrow> string \<times> error option" where
  "cmd_Output e c fs = cmd_Run e c fs"

text \<open>
  \<^verbatim>\<open>cmd.String()\<close>, which \<^verbatim>\<open>%s\<close> prints: the resolved path and the arguments
  after the name, separated by spaces; the arguments as given when the lookup failed.
\<close>

definition cmd_String :: "Cmd \<Rightarrow> string" where
  "cmd_String c =
     (case Err c of
        Some err \<Rightarrow> strings_Join (Args c) '' ''
      | None \<Rightarrow> Path c @ concat (map (\<lambda>a. '' '' @ a) (tl (Args c))))"

text \<open>
  \<^verbatim>\<open>ioutil.TempDir(dir, prefix)\<close>: a new directory named by the prefix and a random
  suffix, under \<^verbatim>\<open>os.TempDir()\<close> when \<open>dir\<close> is empty. One name is drawn; a name that
  exists already is an error.
\<close>

definition ioutil_TempDir ::
  "env \<Rightarrow> string \<Rightarrow> string \<Rightarrow> filesystem \<Rightarrow> (error + string) \<times> filesystem" where
  "ioutil_TempDir e dir pfx fs =
     (let name = filepath_Join [if dir = [] then os_TempDir e else dir, pfx @ random_suffix e]
      in case mkdir_error e name of
           Some msg \<Rightarrow> (Inl (OtherError msg), fs)
         | None \<Rightarrow>
             (case fs name of
                Some n \<Rightarrow> (Inl (OtherError ''file exists''), fs)
              | None \<Rightarrow> (Inr name, fs(name \<mapsto> Dir))))"

text \<open>\<^verbatim>\<open>ioutil.WriteFile(filename, data, perm)\<close>: the file holds the data, or an error.\<close>

definition ioutil_WriteFile ::
  "env \<Rightarrow> string \<Rightarrow> string \<Rightarrow> filesystem \<Rightarrow> error option \<times> filesystem" where
  "ioutil_WriteFile e filename data fs =
     (case write_error e filename of
        Some msg \<Rightarrow> (Some (OtherError msg), fs)
      | None \<Rightarrow> (None, fs(filename \<mapsto> File data)))"

text \<open>\<^verbatim>\<open>os.RemoveAll(path)\<close>: the path and everything below it is gone.\<close>

definition below :: "string \<Rightarrow> string \<Rightarrow> bool" where
  "below dir p = (take (length dir + 1) p = dir @ ''/'')"

definition os_RemoveAll :: "string \<Rightarrow> filesystem \<Rightarrow> filesystem" where
  "os_RemoveAll path fs = (\<lambda>p. if p = path then None else if below path p then None else fs p)"

text \<open>
  How a call ends: it returns, the whole process is ended by \<^verbatim>\<open>log.Fatalf\<close> (the
  message is logged and \<^verbatim>\<open>os.Exit(1)\<close> is called: deferred calls do not run), or a
  run-time panic unwinds it (deferred calls run).
\<close>

datatype 'a outcome = Return 'a | Fatal string | Panic string

section \<open>The program: \<^verbatim>\<open>pkg/kubernetes/util/diff.go\<close>\<close>

text \<open>
  \<^verbatim>\<open>isCommandAvailable(name)\<close> runs \<^verbatim>\<open>/bin/sh -c "command -v <name>"\<close>. When the run
  gives an error, \<^verbatim>\<open>log.Fatalf\<close> ends the process; the \<^verbatim>\<open>return false\<close> after it
  is never reached.
\<close>

definition isCommandAvailable :: "env \<Rightarrow> string \<Rightarrow> filesystem \<Rightarrow> bool outcome" where
  "isCommandAvailable e name fs =
     (case cmd_Run e (exec_Command e ''/bin/sh'' [''-c'', ''command -v '' @ name]) fs of
        (out, Some err) \<Rightarrow> Fatal (''Command not found: '' @ name @ [LF])
      | (out, None) \<Rightarrow> Return True)"

text \<open>
  \<^verbatim>\<open>terminal_width()\<close> runs \<^verbatim>\<open>stty size\<close> on the program's own standard input and
  takes element 1 of the output split at spaces. Indexing a slice of one element is a
  run-time panic.
\<close>

definition terminal_width :: "env \<Rightarrow> filesystem \<Rightarrow> string outcome" where
  "terminal_width e fs =
     (case cmd_Output e ((exec_Command e ''stty'' [''size''])\<lparr>Stdin := Inherit\<rparr>) fs of
        (out, Some err) \<Rightarrow> Return ''80''
      | (out, None) \<Rightarrow>
          (let parts = strings_Split out '' ''
           in if 1 < length parts then Return (parts ! 1)
              else Panic ''index out of range [1] with length 1''))"

text \<open>Lines 47 to 53 of \<^verbatim>\<open>DiffStr\<close>: the comparison command.\<close>

definition DiffStr_command :: "env \<Rightarrow> string \<Rightarrow> string \<Rightarrow> filesystem \<Rightarrow> Cmd outcome" where
  "DiffStr_command e live merged fs =
     (case isCommandAvailable e ''icdiff'' fs of
        Fatal msg \<Rightarrow> Fatal msg
      | Panic msg \<Rightarrow> Panic msg
      | Return True \<Rightarrow>
          (case terminal_width e fs of
             Fatal msg \<Rightarrow> Fatal msg
           | Panic msg \<Rightarrow> Panic msg
           | Return width \<Rightarrow>
               (let cols = strings_Join [''--cols='', width] []
                in Return (exec_Command e ''icdiff'' [''-r'', cols, live, merged])))
      | Return False \<Rightarrow> Return (exec_Command e ''diff'' [''-u'', ''-N'', live, merged]))"

text \<open>
  Lines 55 to 70: the command is run with its standard output in a buffer. An exit error
  with a code other than 1 is returned; after any other result of the run the buffer is
  rendered, behind the command and a line feed when it is not empty.
\<close>

definition DiffStr_run :: "env \<Rightarrow> Cmd \<Rightarrow> filesystem \<Rightarrow> (string \<times> error option) outcome" where
  "DiffStr_run e c fs =
     (case cmd_Run e c fs of
        (buf, err) \<Rightarrow>
          (let rendered = (if buf = [] then buf else cmd_String c @ [LF] @ buf)
           in case err of
                Some (ExitError code msg) \<Rightarrow>
                  if code = 1 then Return (rendered, None) else Return ([], err)
              | Some (OtherError msg) \<Rightarrow> Return (rendered, None)
              | None \<Rightarrow> Return (rendered, None)))"

text \<open>Lines 36 to 70: both files are written, the command is chosen and run.\<close>

definition DiffStr_body ::
  "env \<Rightarrow> string \<Rightarrow> string \<Rightarrow> string \<Rightarrow> string \<Rightarrow> filesystem
   \<Rightarrow> (string \<times> error option) outcome \<times> filesystem" where
  "DiffStr_body e dir name is should fs =
     (case ioutil_WriteFile e (filepath_Join [dir, ''LIVE-'' @ name]) is fs of
        (Some err, fs1) \<Rightarrow> (Return ([], Some err), fs1)
      | (None, fs1) \<Rightarrow>
          (case ioutil_WriteFile e (filepath_Join [dir, ''MERGED-'' @ name]) should fs1 of
             (Some err, fs2) \<Rightarrow> (Return ([], Some err), fs2)
           | (None, fs2) \<Rightarrow>
               (let merged = filepath_Join [dir, ''MERGED-'' @ name];
                    live = filepath_Join [dir, ''LIVE-'' @ name]
                in case DiffStr_command e live merged fs2 of
                     Fatal msg \<Rightarrow> (Fatal msg, fs2)
                   | Panic msg \<Rightarrow> (Panic msg, fs2)
                   | Return c \<Rightarrow> (DiffStr_run e c fs2, fs2))))"

text \<open>
  \<^verbatim>\<open>defer os.RemoveAll(dir)\<close>: the removal runs when the function returns or panics,
  not when the process is ended inside it.
\<close>

definition deferred ::
  "(filesystem \<Rightarrow> filesystem) \<Rightarrow> 'a outcome \<times> filesystem \<Rightarrow> 'a outcome \<times> filesystem" where
  "deferred cleanup r =
     (case r of
        (Return v, fs) \<Rightarrow> (Return v, cleanup fs)
      | (Panic msg, fs) \<Rightarrow> (Panic msg, cleanup fs)
      | (Fatal msg, fs) \<Rightarrow> (Fatal msg, fs))"

definition DiffStr ::
  "env \<Rightarrow> string \<Rightarrow> string \<Rightarrow> string \<Rightarrow> filesystem
   \<Rightarrow> (string \<times> error option) outcome \<times> filesystem" where
  "DiffStr e name is should fs =
     (case ioutil_TempDir e [] ''diff'' fs of
        (Inl err, fs0) \<Rightarrow> (Return ([], Some err), fs0)
      | (Inr dir, fs0) \<Rightarrow> deferred (os_RemoveAll dir) (DiffStr_body e dir name is should fs0))"

text \<open>
  \<^verbatim>\<open>Diffstat(d)\<close> runs \<^verbatim>\<open>diffstat -C\<close> on \<open>d\<close>. The result is a pointer to the
  output (\<open>None\<close> is nil) and an error.
\<close>

definition Diffstat :: "env \<Rightarrow> string \<Rightarrow> filesystem \<Rightarrow> string option \<times> error option" where
  "Diffstat e d fs =
     (case cmd_Run e ((exec_Command e ''diffstat'' [''-C''])\<lparr>Stdin := Reader d\<rparr>) fs of
        (buf, Some err) \<Rightarrow> (None, Some (OtherError (''invoking diffstat(1): '' @ Error err)))
      | (buf, None) \<Rightarrow> (Some buf, None))"

text \<open>
  \<^verbatim>\<open>FilteredErr\<close> is a slice of compiled regular expressions. Of a regular expression
  only \<^verbatim>\<open>Match\<close> is used: it is the set of byte chunks it matches. The standard error
  stream is a state of any type \<open>'s\<close> with its own write function, which gives the count,
  the error and the new state.
\<close>

type_synonym Regexp = "string \<Rightarrow> bool"

type_synonym FilteredErr = "Regexp list"

fun Write ::
  "FilteredErr \<Rightarrow> (string \<Rightarrow> 's \<Rightarrow> (int \<times> error option) \<times> 's) \<Rightarrow> string \<Rightarrow> 's
   \<Rightarrow> (int \<times> error option) \<times> 's" where
  "Write [] os_Stderr_Write p s = os_Stderr_Write p s"
| "Write (re # r) os_Stderr_Write p s =
     (if re p then ((int (length p), None), s) else Write r os_Stderr_Write p s)"

section \<open>Sample environments\<close>

text \<open>
  Environments on which the program is evaluated below. In \<open>tools\<close> the shell finds every
  command, \<^verbatim>\<open>stty size\<close> prints \<^verbatim>\<open>24 80\<close> and a line feed, \<^verbatim>\<open>diffstat\<close> prints one
  line for a non-empty input, and a comparison tool prints nothing and exits with 0 when
  its last two arguments name files with the same content, and prints a line and exits
  with 1 otherwise.
\<close>

definition tools :: "string \<Rightarrow> string list \<Rightarrow> stdin \<Rightarrow> filesystem \<Rightarrow> string \<times> run_status" where
  "tools path args inp fs =
     (if path = ''/bin/sh'' then ([], Exit 0 ''exit status 0'')
      else if path = ''/usr/bin/stty'' then (''24 80'' @ [LF], Exit 0 ''exit status 0'')
      else if path = ''/usr/bin/diffstat'' then
        (if inp = Reader [] then ([], Exit 0 ''exit status 0'')
         else ('' 1 file changed'' @ [LF], Exit 0 ''exit status 0''))
      else if fs (last (butlast args)) = fs (last args) then ([], Exit 0 ''exit status 0'')
      else (''differ'' @ [LF], Exit 1 ''exit status 1''))"

definition env_ok :: env where
  "env_ok =
     \<lparr>LookPath = (\<lambda>name. Inr (''/usr/bin/'' @ name)),
      process = tools,
      os_TempDir = ''/tmp'',
      random_suffix = ''123'',
      mkdir_error = (\<lambda>p. None),
      write_error = (\<lambda>p. None)\<rparr>"

text \<open>The shell does not find \<^verbatim>\<open>icdiff\<close>: \<^verbatim>\<open>command -v icdiff\<close> exits with 1.\<close>

definition env_no_icdiff :: env where
  "env_no_icdiff =
     env_ok\<lparr>process :=
       (\<lambda>path args inp fs.
          if path = ''/bin/sh'' then ([], Exit 1 ''exit status 1'') else tools path args inp fs)\<rparr>"

text \<open>
  \<^verbatim>\<open>icdiff\<close> is found, by the shell and on the path, but the system cannot start it.
\<close>

definition env_cannot_start :: env where
  "env_cannot_start =
     env_ok\<lparr>process :=
       (\<lambda>path args inp fs.
          if path = ''/usr/bin/icdiff''
          then ([], NotRun ''fork/exec /usr/bin/icdiff: exec format error'')
          else tools path args inp fs)\<rparr>"

text \<open>\<^verbatim>\<open>stty size\<close> ends with status 0 and prints nothing.\<close>

definition env_silent_stty :: env where
  "env_silent_stty =
     env_ok\<lparr>process :=
       (\<lambda>path args inp fs.
          if path = ''/usr/bin/stty'' then ([], Exit 0 ''exit status 0'')
          else tools path args inp fs)\<rparr>"

text \<open>The temporary directory cannot be created.\<close>

definition env_no_tmp :: env where
  "env_no_tmp =
     env_ok\<lparr>mkdir_error := (\<lambda>p. Some ''mkdir /tmp/diff123: permission denied'')\<rparr>"

text \<open>\<^verbatim>\<open>diffstat\<close> exits with status 1.\<close>

definition env_diffstat_fails :: env where
  "env_diffstat_fails =
     env_ok\<lparr>process :=
       (\<lambda>path args inp fs.
          if path = ''/usr/bin/diffstat'' then ([], Exit 1 ''exit status 1'')
          else tools path args inp fs)\<rparr>"

text \<open>
  The program has no terminal: \<^verbatim>\<open>stty size\<close> prints nothing and exits with status 1.
\<close>

definition env_no_tty :: env where
  "env_no_tty =
     env_ok\<lparr>process :=
       (\<lambda>path args inp fs.
          if path = ''/usr/bin/stty'' then ([], Exit 1 ''exit status 1'')
          else tools path args inp fs)\<rparr>"

definition no_files :: filesystem where
  "no_files = Map.empty(''/tmp'' \<mapsto> Dir)"

text \<open>
  A sample \<^verbatim>\<open>FilteredErr\<close> and a sample stream: \<open>warn_prefix\<close> is what \<^verbatim>\<open>^WARN:\<close>
  matches, \<open>blank\<close> what \<^verbatim>\<open>^$\<close> matches, and \<open>log_Write\<close> accepts every chunk and
  keeps it.
\<close>

definition warn_prefix :: Regexp where
  "warn_prefix p = (take 5 p = ''WARN:'')"

definition blank :: Regexp where
  "blank p = (p = [])"

definition log_Write :: "string \<Rightarrow> string list \<Rightarrow> (int \<times> error option) \<times> string list" where
  "log_Write p log = ((int (length p), None), log @ [p])"

section \<open>DiffName: the file name of a manifest\<close>

lemma strings_Replace_slash:
  "n < 0 \<Longrightarrow>
   strings_Replace s ''/'' ''-'' n = map (\<lambda>c. if c = CHR ''/'' then CHR ''-'' else c) s"
  by (induction s arbitrary: n) auto

text \<open>
  Claim C8. \<open>DiffName\<close> gives the API version, the kind, the namespace and the name,
  separated by dots, with every slash replaced by a dash. So its result holds no slash,
  and the deployment \<open>web\<close> of \<^verbatim>\<open>apps/v1\<close> in the namespace \<open>default\<close> is named
  \<^verbatim>\<open>apps-v1.Deployment.default.web\<close>.
\<close>

theorem DiffName_format:
  "DiffName m =
     map (\<lambda>c. if c = CHR ''/'' then CHR ''-'' else c)
       (APIVersion m @ ''.'' @ Kind m @ ''.'' @ Namespace (Metadata m) @ ''.'' @ Name (Metadata m))
   \<and> CHR ''/'' \<notin> set (DiffName m)
   \<and> DiffName \<lparr>APIVersion = ''apps/v1'', Kind = ''Deployment'',
         Metadata = \<lparr>Namespace = ''default'', Name = ''web''\<rparr>\<rparr> = ''apps-v1.Deployment.default.web''"
  by (auto simp add: DiffName_def Sprintf_dotted_def strings_Replace_slash)

section \<open>FilteredErr: the filtered standard error\<close>

lemma Write_match: "\<exists>re \<in> set r. re p \<Longrightarrow> Write r w p s = ((int (length p), None), s)"
  by (induction r) auto

lemma Write_no_match: "\<forall>re \<in> set r. \<not> re p \<Longrightarrow> Write r w p s = w p s"
  by (induction r) auto

lemma Write_cases:
  "Write r w p s = (if \<exists>re \<in> set r. re p then ((int (length p), None), s) else w p s)"
  using Write_match [of r p w s] Write_no_match [of r p w s] by auto

text \<open>
  Claim C6. For every chunk \<open>p\<close> and every list \<open>r\<close> of patterns: when a pattern of
  \<open>r\<close> matches \<open>p\<close>, \<open>Write\<close> returns the length of \<open>p\<close> and no error and leaves
  the stream \<open>s\<close> as it was; when none matches, it is the stream's own write of \<open>p\<close>,
  count, error and stream; and a list \<open>r'\<close> with the same patterns in another order gives
  the same result.
\<close>

theorem Write_filtered:
  "((\<exists>re \<in> set r. re p) \<longrightarrow> Write r w p s = ((int (length p), None), s))
   \<and> (\<not> (\<exists>re \<in> set r. re p) \<longrightarrow> Write r w p s = w p s)
   \<and> (mset r' = mset r \<longrightarrow> Write r' w p s = Write r w p s)"
proof (intro conjI impI)
  assume "mset r' = mset r"
  then have "set r' = set r" by (rule mset_eq_setD)
  then show "Write r' w p s = Write r w p s" by (simp add: Write_cases)
qed (auto simp add: Write_cases)

theorem Write_filtered_witness:
  "Write [blank, warn_prefix] log_Write ''WARN: x'' [] = ((7, None), [])
   \<and> Write [blank, warn_prefix] log_Write ''fail'' [] = ((4, None), [''fail''])
   \<and> Write [warn_prefix, blank] log_Write ''WARN: x'' []
       = Write [blank, warn_prefix] log_Write ''WARN: x'' []"
  using Write_filtered [of "[blank, warn_prefix]" "''WARN: x''" log_Write "[]" "[warn_prefix, blank]"]
    Write_filtered [of "[blank, warn_prefix]" "''fail''" log_Write "[]" "[warn_prefix, blank]"]
  by (simp add: blank_def warn_prefix_def log_Write_def)

section \<open>Diffstat and the errors of both operations\<close>

text \<open>
  Claim C7. \<open>Diffstat\<close> runs \<^verbatim>\<open>diffstat -C\<close> on the diff. When the executable is not
  found, when the process cannot be run and when it ends with any status other than 0
  (the status 1 too), the result is a nil pointer and an error whose message is
  \<^verbatim>\<open>invoking diffstat(1):\<close> followed by the message of the run's error. Only the status 0
  gives the output and no error.
\<close>

theorem Diffstat_surfaces_errors:
  "(LookPath e ''diffstat'' = Inl msg' \<longrightarrow>
      Diffstat e d fs = (None, Some (OtherError (''invoking diffstat(1): '' @ msg'))))
   \<and> (LookPath e ''diffstat'' = Inr lp \<longrightarrow>
        process e lp [''diffstat'', ''-C''] (Reader d) fs = (out, st) \<longrightarrow>
        Diffstat e d fs =
          (case st of
             Exit code msg \<Rightarrow>
               if code = 0 then (Some out, None)
               else (None, Some (OtherError (''invoking diffstat(1): '' @ msg)))
           | NotRun msg \<Rightarrow> (None, Some (OtherError (''invoking diffstat(1): '' @ msg)))))"
  by (auto simp add: Diffstat_def exec_Command_def cmd_Run_def split: run_status.splits)

theorem Diffstat_surfaces_errors_witness:
  "Diffstat env_diffstat_fails ''x'' no_files
     = (None, Some (OtherError (''invoking diffstat(1): exit status 1'')))
   \<and> Diffstat env_ok ''x'' no_files = (Some ('' 1 file changed'' @ [LF]), None)"
  using Diffstat_surfaces_errors [of env_diffstat_fails undefined "''x''" no_files
      "''/usr/bin/diffstat''" "[]" "Exit 1 ''exit status 1''"]
    Diffstat_surfaces_errors [of env_ok undefined "''x''" no_files
      "''/usr/bin/diffstat''" "'' 1 file changed'' @ [LF]" "Exit 0 ''exit status 0''"]
  by (simp add: env_diffstat_fails_def env_ok_def tools_def)

lemma deferred_fst: "fst (deferred cleanup r) = fst r"
  by (auto simp add: deferred_def split: prod.splits outcome.splits)

lemma DiffStr_run_error: "DiffStr_run e c fs = Return (out, Some err) \<Longrightarrow> out = []"
  by (auto simp add: DiffStr_run_def Let_def split: prod.splits option.splits error.splits if_splits)

lemma DiffStr_body_error:
  "fst (DiffStr_body e dir name is should fs) = Return (out, Some err) \<Longrightarrow> out = []"
  by (auto simp add: DiffStr_body_def Let_def dest: DiffStr_run_error
      split: prod.splits option.splits outcome.splits)

lemma DiffStr_error: "fst (DiffStr e name is should fs) = Return (out, Some err) \<Longrightarrow> out = []"
  by (auto simp add: DiffStr_def deferred_fst dest: DiffStr_body_error split: prod.splits sum.splits)

lemma Diffstat_error: "Diffstat e d fs = (summary, Some err) \<Longrightarrow> summary = None"
  by (auto simp add: Diffstat_def split: prod.splits option.splits)

text \<open>
  Claim C10. Whenever \<open>DiffStr\<close> returns an error, the string it returns with it is
  empty; whenever \<open>Diffstat\<close> returns an error, the pointer it returns with it is nil.
\<close>

theorem errors_carry_no_output:
  "(fst (DiffStr e name is should fs) = Return (out, Some err) \<longrightarrow> out = [])
   \<and> (Diffstat e' d fs' = (summary, Some err') \<longrightarrow> summary = None)"
  using DiffStr_error Diffstat_error by blast

theorem errors_carry_no_output_witness:
  "fst (DiffStr env_no_tmp ''n'' ''a'' ''b'' no_files)
     = Return ([], Some (OtherError ''mkdir /tmp/diff123: permission denied''))
   \<and> Diffstat env_diffstat_fails ''x'' no_files
     = (None, Some (OtherError ''invoking diffstat(1): exit status 1''))"
  using errors_carry_no_output [of env_no_tmp "''n''" "''a''" "''b''" no_files "[]"
      "OtherError ''mkdir /tmp/diff123: permission denied''" env_diffstat_fails "''x''" no_files
      None "OtherError ''invoking diffstat(1): exit status 1''"]
  by (simp add: DiffStr_def Diffstat_def ioutil_TempDir_def env_no_tmp_def env_diffstat_fails_def
      env_ok_def exec_Command_def cmd_Run_def filepath_Join_def filepath_Clean_def
      strings_Split_def tools_def)

section \<open>DiffStr: the comparison\<close>

lemmas program_defs =
  DiffStr_def DiffStr_body_def DiffStr_command_def DiffStr_run_def deferred_def
  isCommandAvailable_def terminal_width_def
  ioutil_TempDir_def ioutil_WriteFile_def os_RemoveAll_def below_def
  exec_Command_def cmd_Run_def cmd_Output_def cmd_String_def
  filepath_Join_def filepath_Clean_def strings_Split_def Let_def

lemmas sample_defs =
  env_ok_def env_no_icdiff_def env_cannot_start_def env_silent_stty_def env_no_tmp_def
  env_diffstat_fails_def tools_def no_files_def

subsection \<open>The exit status of the comparison command\<close>

text \<open>
  What lines 59 to 63 do with a process that ran: the statuses 0 and 1 give the rendered
  buffer and no error, every other status gives the empty string and the exit error.
\<close>

lemma DiffStr_run_exit_status:
  assumes "Err c = None"
    and "process e (Path c) (Args c) (Stdin c) fs = (buf, Exit code msg)"
  shows "DiffStr_run e c fs =
           (if code = 0 \<or> code = 1
            then Return (if buf = [] then [] else cmd_String c @ [LF] @ buf, None)
            else Return ([], Some (ExitError code msg)))"
  using assms by (simp add: DiffStr_run_def cmd_Run_def)

text \<open>
  And with a command that did not run: no branch of lines 59 to 63 is taken, the buffer is
  rendered and the error is dropped.
\<close>

lemma DiffStr_run_not_run:
  assumes "cmd_Run e c fs = (buf, Some (OtherError msg))"
  shows "DiffStr_run e c fs = Return (if buf = [] then [] else cmd_String c @ [LF] @ buf, None)"
  using assms by (simp add: DiffStr_run_def)

text \<open>
  Claim C1. The claim holds for exit statuses (\<open>DiffStr_run_exit_status\<close>) and fails
  for an error that is not an exit error. In \<open>env_cannot_start\<close> the system cannot
  start \<^verbatim>\<open>icdiff\<close>: running the comparison command gives an error that is not an
  exit error, and \<open>DiffStr\<close> returns the empty string and no error.
\<close>

theorem DiffStr_swallows_start_failure:
  "cmd_Run env_cannot_start
     (exec_Command env_cannot_start ''icdiff''
        [''-r'', ''--cols=80'' @ [LF], ''/tmp/diff123/LIVE-n'', ''/tmp/diff123/MERGED-n''])
     (no_files(''/tmp/diff123'' \<mapsto> Dir, ''/tmp/diff123/LIVE-n'' \<mapsto> File ''a'',
        ''/tmp/diff123/MERGED-n'' \<mapsto> File ''b''))
     = ([], Some (OtherError ''fork/exec /usr/bin/icdiff: exec format error''))
   \<and> fst (DiffStr env_cannot_start ''n'' ''a'' ''b'' no_files) = Return ([], None)"
  by (simp add: program_defs sample_defs)

subsection \<open>The temporary directory\<close>

text \<open>
  Claim C2. The claim fails where the process is ended inside the call. In
  \<open>env_no_icdiff\<close> the shell does not find \<^verbatim>\<open>icdiff\<close>: \<open>isCommandAvailable\<close> ends the
  process, the deferred removal does not run, and the directory and both files are still
  there.
\<close>

theorem DiffStr_leaves_workspace_on_fatal:
  "fst (DiffStr env_no_icdiff ''n'' ''a'' ''b'' no_files)
     = Fatal (''Command not found: icdiff'' @ [LF])
   \<and> snd (DiffStr env_no_icdiff ''n'' ''a'' ''b'' no_files) ''/tmp/diff123'' = Some Dir
   \<and> snd (DiffStr env_no_icdiff ''n'' ''a'' ''b'' no_files) ''/tmp/diff123/LIVE-n''
       = Some (File ''a'')
   \<and> snd (DiffStr env_no_icdiff ''n'' ''a'' ''b'' no_files) ''/tmp/diff123/MERGED-n''
       = Some (File ''b'')"
  by (simp add: program_defs sample_defs)

text \<open>
  Where the call returns or panics, the directory and everything below it is gone.
\<close>

lemma DiffStr_removes_workspace:
  assumes "ioutil_TempDir e [] ''diff'' fs = (Inr dir, fs0)"
    and "\<forall>msg. fst (DiffStr e name is should fs) \<noteq> Fatal msg"
    and "p = dir \<or> below dir p"
  shows "snd (DiffStr e name is should fs) p = None"
  using assms
  by (auto simp add: DiffStr_def deferred_def os_RemoveAll_def split: prod.splits outcome.splits)

text \<open>
  A name with \<^verbatim>\<open>..\<close> elements leaves the directory: \<^verbatim>\<open>filepath.Join\<close> cleans the
  path, both files are written to \<^verbatim>\<open>/tmp/x\<close>, and the file stays after the call.
\<close>

lemma DiffStr_name_leaves_workspace:
  "fst (DiffStr env_ok ''/../../x'' ''a'' ''b'' no_files) = Return ([], None)
   \<and> snd (DiffStr env_ok ''/../../x'' ''a'' ''b'' no_files) ''/tmp/x'' = Some (File ''b'')"
  by (simp add: program_defs sample_defs)

subsection \<open>The choice of the command\<close>

lemma isCommandAvailable_never_False: "isCommandAvailable e name fs \<noteq> Return False"
  by (auto simp add: isCommandAvailable_def split: prod.splits option.splits)

lemma DiffStr_command_icdiff:
  "DiffStr_command e live merged fs = Return c \<Longrightarrow>
   \<exists>width. terminal_width e fs = Return width
     \<and> c = exec_Command e ''icdiff'' [''-r'', ''--cols='' @ width, live, merged]"
  by (auto simp add: DiffStr_command_def isCommandAvailable_def Let_def
      split: outcome.splits bool.splits prod.splits option.splits)

text \<open>
  Claim C3. The first half of the claim holds (\<open>DiffStr_command_icdiff\<close>: a command
  that is chosen is the \<^verbatim>\<open>icdiff\<close> command); the fallback does not exist.
  \<open>isCommandAvailable\<close> never returns false, the \<^verbatim>\<open>diff -u -N\<close> command is never
  the command chosen, and where the shell does not find \<^verbatim>\<open>icdiff\<close> the process is
  ended with the message \<^verbatim>\<open>Command not found: icdiff\<close>.
\<close>

theorem DiffStr_never_falls_back:
  "isCommandAvailable e name fs \<noteq> Return False
   \<and> DiffStr_command e live merged fs
       \<noteq> Return (exec_Command e ''diff'' [''-u'', ''-N'', live, merged])
   \<and> DiffStr_command env_no_icdiff ''/tmp/diff123/LIVE-n'' ''/tmp/diff123/MERGED-n'' no_files
       = Fatal (''Command not found: icdiff'' @ [LF])"
proof (intro conjI)
  show "isCommandAvailable e name fs \<noteq> Return False"
    by (rule isCommandAvailable_never_False)
  show "DiffStr_command e live merged fs
       \<noteq> Return (exec_Command e ''diff'' [''-u'', ''-N'', live, merged])"
  proof
    assume "DiffStr_command e live merged fs
       = Return (exec_Command e ''diff'' [''-u'', ''-N'', live, merged])"
    from DiffStr_command_icdiff [OF this] obtain width where
      "exec_Command e ''diff'' [''-u'', ''-N'', live, merged]
         = exec_Command e ''icdiff'' [''-r'', ''--cols='' @ width, live, merged]"
      by blast
    then have "Args (exec_Command e ''diff'' [''-u'', ''-N'', live, merged])
         = Args (exec_Command e ''icdiff'' [''-r'', ''--cols='' @ width, live, merged])"
      by simp
    then show False
      by (simp add: exec_Command_def split: sum.splits)
  qed
  show "DiffStr_command env_no_icdiff ''/tmp/diff123/LIVE-n'' ''/tmp/diff123/MERGED-n'' no_files
       = Fatal (''Command not found: icdiff'' @ [LF])"
    by (simp add: program_defs sample_defs)
qed

subsection \<open>The terminal width\<close>

lemma terminal_width_default:
  "cmd_Output e ((exec_Command e ''stty'' [''size''])\<lparr>Stdin := Inherit\<rparr>) fs = (out, Some err)
   \<Longrightarrow> terminal_width e fs = Return ''80''"
  by (simp add: terminal_width_def)

text \<open>
  Claim C4. The claim holds where the query fails (\<open>terminal_width_default\<close>) and fails
  where the query succeeds with an output without a space. In \<open>env_silent_stty\<close>
  \<^verbatim>\<open>stty size\<close> prints nothing and ends with status 0: \<open>terminal_width\<close> panics, and
  so does the \<open>DiffStr\<close> that called it.
\<close>

theorem terminal_width_panics:
  "terminal_width env_silent_stty no_files = Panic ''index out of range [1] with length 1''
   \<and> fst (DiffStr env_silent_stty ''n'' ''a'' ''b'' no_files)
       = Panic ''index out of range [1] with length 1''"
  by (simp add: program_defs sample_defs)

subsection \<open>The rendered text\<close>

lemma DiffStr_run_ok:
  "DiffStr_run e c fs = Return (r, None) \<Longrightarrow>
   r = (if fst (cmd_Run e c fs) = [] then [] else cmd_String c @ [LF] @ fst (cmd_Run e c fs))"
  by (auto simp add: DiffStr_run_def Let_def split: prod.splits option.splits error.splits if_splits)

lemma cmd_Run_output_Err: "fst (cmd_Run e c fs) \<noteq> [] \<Longrightarrow> Err c = None"
  by (auto simp add: cmd_Run_def split: option.splits)

lemma cmd_String_found:
  "Err c = None \<Longrightarrow> Args c = [name, a1, a2, a3, a4] \<Longrightarrow>
   cmd_String c = Path c @ '' '' @ a1 @ '' '' @ a2 @ '' '' @ a3 @ '' '' @ a4"
  by (simp add: cmd_String_def)

lemma exec_Command_Args: "Args (exec_Command e name arg) = name # arg"
  by (auto simp add: exec_Command_def split: sum.splits)

text \<open>
  A call that returns without an error has created the directory, written both files,
  chosen a command and run it.
\<close>

lemma DiffStr_success:
  assumes "fst (DiffStr e name is should fs) = Return (r, None)"
  shows "\<exists>dir fs0 c.
           ioutil_TempDir e [] ''diff'' fs = (Inr dir, fs0)
         \<and> DiffStr_command e (filepath_Join [dir, ''LIVE-'' @ name])
               (filepath_Join [dir, ''MERGED-'' @ name])
               (fs0(filepath_Join [dir, ''LIVE-'' @ name] \<mapsto> File is,
                    filepath_Join [dir, ''MERGED-'' @ name] \<mapsto> File should)) = Return c
         \<and> DiffStr_run e c
               (fs0(filepath_Join [dir, ''LIVE-'' @ name] \<mapsto> File is,
                    filepath_Join [dir, ''MERGED-'' @ name] \<mapsto> File should)) = Return (r, None)"
  using assms
  by (auto simp add: DiffStr_def deferred_fst DiffStr_body_def ioutil_WriteFile_def Let_def
      split: prod.splits sum.splits option.splits outcome.splits)

text \<open>
  The form of the returned string, for every call of \<open>DiffStr\<close> that returns without an
  error. With \<open>width\<close> what \<open>terminal_width\<close> returned and \<open>out\<close> the captured
  standard output of the command: when \<open>out\<close> is empty the returned string is empty; when
  it is not, the returned string is the path of the executable and the arguments
  \<^verbatim>\<open>-r\<close>, \<^verbatim>\<open>--cols=\<close> with \<open>width\<close>, the path of the live file and the path of the
  merged file, separated by single spaces, then a line feed, then \<open>out\<close>.
\<close>

lemma DiffStr_rendered:
  assumes "fst (DiffStr e name is should fs) = Return (r, None)"
  shows "\<exists>dir fs0 width c out.
           ioutil_TempDir e [] ''diff'' fs = (Inr dir, fs0)
         \<and> terminal_width e
               (fs0(filepath_Join [dir, ''LIVE-'' @ name] \<mapsto> File is,
                    filepath_Join [dir, ''MERGED-'' @ name] \<mapsto> File should)) = Return width
         \<and> c = exec_Command e ''icdiff''
                 [''-r'', ''--cols='' @ width, filepath_Join [dir, ''LIVE-'' @ name],
                  filepath_Join [dir, ''MERGED-'' @ name]]
         \<and> out = fst (cmd_Run e c
                 (fs0(filepath_Join [dir, ''LIVE-'' @ name] \<mapsto> File is,
                      filepath_Join [dir, ''MERGED-'' @ name] \<mapsto> File should)))
         \<and> (out = [] \<longrightarrow> r = [])
         \<and> (out \<noteq> [] \<longrightarrow>
               r = (Path c @ '' -r --cols='' @ width
                      @ '' '' @ filepath_Join [dir, ''LIVE-'' @ name]
                      @ '' '' @ filepath_Join [dir, ''MERGED-'' @ name]) @ [LF] @ out)"
proof -
  from DiffStr_success [OF assms] obtain dir fs0 c where
    tmp: "ioutil_TempDir e [] ''diff'' fs = (Inr dir, fs0)"
    and sel: "DiffStr_command e (filepath_Join [dir, ''LIVE-'' @ name])
               (filepath_Join [dir, ''MERGED-'' @ name])
               (fs0(filepath_Join [dir, ''LIVE-'' @ name] \<mapsto> File is,
                    filepath_Join [dir, ''MERGED-'' @ name] \<mapsto> File should)) = Return c"
    and run: "DiffStr_run e c
               (fs0(filepath_Join [dir, ''LIVE-'' @ name] \<mapsto> File is,
                    filepath_Join [dir, ''MERGED-'' @ name] \<mapsto> File should)) = Return (r, None)"
    by blast
  from DiffStr_command_icdiff [OF sel] obtain width where
    width: "terminal_width e
               (fs0(filepath_Join [dir, ''LIVE-'' @ name] \<mapsto> File is,
                    filepath_Join [dir, ''MERGED-'' @ name] \<mapsto> File should)) = Return width"
    and c: "c = exec_Command e ''icdiff''
                 [''-r'', ''--cols='' @ width, filepath_Join [dir, ''LIVE-'' @ name],
                  filepath_Join [dir, ''MERGED-'' @ name]]"
    by blast
  let ?out = "fst (cmd_Run e c
                 (fs0(filepath_Join [dir, ''LIVE-'' @ name] \<mapsto> File is,
                      filepath_Join [dir, ''MERGED-'' @ name] \<mapsto> File should)))"
  have args: "Args c = [''icdiff'', ''-r'', ''--cols='' @ width,
      filepath_Join [dir, ''LIVE-'' @ name], filepath_Join [dir, ''MERGED-'' @ name]]"
    by (simp add: c exec_Command_Args)
  have empty: "?out = [] \<longrightarrow> r = []"
    using DiffStr_run_ok [OF run] by simp
  have rendered: "?out \<noteq> [] \<longrightarrow>
               r = (Path c @ '' -r --cols='' @ width
                      @ '' '' @ filepath_Join [dir, ''LIVE-'' @ name]
                      @ '' '' @ filepath_Join [dir, ''MERGED-'' @ name]) @ [LF] @ ?out"
  proof
    assume ne: "?out \<noteq> []"
    then have "Err c = None" by (rule cmd_Run_output_Err)
    then have "cmd_String c = Path c @ '' -r --cols='' @ width
                      @ '' '' @ filepath_Join [dir, ''LIVE-'' @ name]
                      @ '' '' @ filepath_Join [dir, ''MERGED-'' @ name]"
      using cmd_String_found [OF _ args] by simp
    then show "r = (Path c @ '' -r --cols='' @ width
                      @ '' '' @ filepath_Join [dir, ''LIVE-'' @ name]
                      @ '' '' @ filepath_Join [dir, ''MERGED-'' @ name]) @ [LF] @ ?out"
      using DiffStr_run_ok [OF run] ne by simp
  qed
  from tmp width c empty rendered show ?thesis by blast
qed

text \<open>
  Where the query of the width fails (\<open>env_no_tty\<close>), the width is \<^verbatim>\<open>80\<close> and the
  text before the captured output is one line.
\<close>

lemma DiffStr_header_default_width:
  "terminal_width env_no_tty no_files = Return ''80''
   \<and> fst (DiffStr env_no_tty ''n'' ''a'' ''b'' no_files)
     = Return (''/usr/bin/icdiff -r --cols=80 /tmp/diff123/LIVE-n /tmp/diff123/MERGED-n''
               @ [LF] @ ''differ'' @ [LF], None)"
  by (simp add: program_defs sample_defs env_no_tty_def)

lemma DiffStr_value:
  "fst (DiffStr env_ok ''n'' ''a'' ''b'' no_files)
     = Return ((''/usr/bin/icdiff -r --cols=80'' @ [LF]
                @ '' /tmp/diff123/LIVE-n /tmp/diff123/MERGED-n'') @ [LF] @ ''differ'' @ [LF], None)"
  by (simp add: program_defs sample_defs)

text \<open>
  Claim C5. The form of the claim holds (\<open>DiffStr_rendered\<close>); the text before the
  captured output is not one line where the query of the width succeeds. In \<open>env_ok\<close>
  \<^verbatim>\<open>stty size\<close> prints \<^verbatim>\<open>24 80\<close> and a line feed: \<open>terminal_width\<close> returns
  \<^verbatim>\<open>80\<close> with the line feed, the comparison command prints \<^verbatim>\<open>differ\<close> and a line
  feed, and the returned string is not a text without a line feed, a line feed and that
  output.
\<close>

theorem DiffStr_header_two_lines:
  "terminal_width env_ok
     (no_files(''/tmp/diff123'' \<mapsto> Dir, ''/tmp/diff123/LIVE-n'' \<mapsto> File ''a'',
        ''/tmp/diff123/MERGED-n'' \<mapsto> File ''b'')) = Return (''80'' @ [LF])
   \<and> cmd_Run env_ok
     (exec_Command env_ok ''icdiff''
        [''-r'', ''--cols=80'' @ [LF], ''/tmp/diff123/LIVE-n'', ''/tmp/diff123/MERGED-n''])
     (no_files(''/tmp/diff123'' \<mapsto> Dir, ''/tmp/diff123/LIVE-n'' \<mapsto> File ''a'',
        ''/tmp/diff123/MERGED-n'' \<mapsto> File ''b''))
     = (''differ'' @ [LF], Some (ExitError 1 ''exit status 1''))
   \<and> fst (DiffStr env_ok ''n'' ''a'' ''b'' no_files)
     = Return ((''/usr/bin/icdiff -r --cols=80'' @ [LF]
                @ '' /tmp/diff123/LIVE-n /tmp/diff123/MERGED-n'') @ [LF] @ ''differ'' @ [LF], None)
   \<and> \<not> (\<exists>header. LF \<notin> set header \<and>
          fst (DiffStr env_ok ''n'' ''a'' ''b'' no_files)
            = Return (header @ [LF] @ ''differ'' @ [LF], None))"
proof (intro conjI notI)
  show "terminal_width env_ok
     (no_files(''/tmp/diff123'' \<mapsto> Dir, ''/tmp/diff123/LIVE-n'' \<mapsto> File ''a'',
        ''/tmp/diff123/MERGED-n'' \<mapsto> File ''b'')) = Return (''80'' @ [LF])"
    by (simp add: program_defs sample_defs)
next
  show "cmd_Run env_ok
     (exec_Command env_ok ''icdiff''
        [''-r'', ''--cols=80'' @ [LF], ''/tmp/diff123/LIVE-n'', ''/tmp/diff123/MERGED-n''])
     (no_files(''/tmp/diff123'' \<mapsto> Dir, ''/tmp/diff123/LIVE-n'' \<mapsto> File ''a'',
        ''/tmp/diff123/MERGED-n'' \<mapsto> File ''b''))
     = (''differ'' @ [LF], Some (ExitError 1 ''exit status 1''))"
    by (simp add: program_defs sample_defs)
next
  show "fst (DiffStr env_ok ''n'' ''a'' ''b'' no_files)
     = Return ((''/usr/bin/icdiff -r --cols=80'' @ [LF]
                @ '' /tmp/diff123/LIVE-n /tmp/diff123/MERGED-n'') @ [LF] @ ''differ'' @ [LF], None)"
    by (rule DiffStr_value)
next
  assume "\<exists>header. LF \<notin> set header \<and>
          fst (DiffStr env_ok ''n'' ''a'' ''b'' no_files)
            = Return (header @ [LF] @ ''differ'' @ [LF], None)"
  then obtain header where one: "LF \<notin> set header"
    and eq: "fst (DiffStr env_ok ''n'' ''a'' ''b'' no_files)
               = Return (header @ [LF] @ ''differ'' @ [LF], None)"
    by blast
  from eq have "header @ ([LF] @ ''differ'' @ [LF])
      = (''/usr/bin/icdiff -r --cols=80'' @ [LF]
                @ '' /tmp/diff123/LIVE-n /tmp/diff123/MERGED-n'') @ ([LF] @ ''differ'' @ [LF])"
    unfolding DiffStr_value by simp
  then have "header = ''/usr/bin/icdiff -r --cols=80'' @ [LF]
                @ '' /tmp/diff123/LIVE-n /tmp/diff123/MERGED-n''"
    by (simp only: append_same_eq)
  with one show False by simp
qed

subsection \<open>Identical texts\<close>

text \<open>
  Where the directory and both files are created, the probe and the query of the width
  succeed, and \<^verbatim>\<open>icdiff\<close> is found on the path and prints nothing and ends with
  status 0 on two files of the same content, \<open>DiffStr\<close> on identical texts returns the
  empty string and no error.
\<close>

lemma DiffStr_identical_icdiff:
  assumes tmp: "ioutil_TempDir e [] ''diff'' fs = (Inr dir, fs0)"
    and live: "live = filepath_Join [dir, ''LIVE-'' @ name]"
    and merged: "merged = filepath_Join [dir, ''MERGED-'' @ name]"
    and wl: "write_error e live = None"
    and wm: "write_error e merged = None"
    and files: "fs2 = fs0(live \<mapsto> File x, merged \<mapsto> File x)"
    and probe: "isCommandAvailable e ''icdiff'' fs2 = Return True"
    and width: "terminal_width e fs2 = Return width"
    and found: "LookPath e ''icdiff'' = Inr lp"
    and tool: "\<And>cols a b f. f a = Some (File x) \<Longrightarrow> f b = Some (File x) \<Longrightarrow>
                 \<exists>msg. process e lp [''icdiff'', ''-r'', cols, a, b] DevNull f = ([], Exit 0 msg)"
  shows "fst (DiffStr e name x x fs) = Return ([], None)"
proof -
  let ?c = "exec_Command e ''icdiff'' [''-r'', ''--cols='' @ width, live, merged]"
  have sel: "DiffStr_command e live merged fs2 = Return ?c"
    by (simp add: DiffStr_command_def probe width)
  have l: "fs2 live = Some (File x)" and m: "fs2 merged = Some (File x)"
    by (simp_all add: files)
  from tool [OF l m, of "''--cols='' @ width"] obtain msg where
    "process e lp [''icdiff'', ''-r'', ''--cols='' @ width, live, merged] DevNull fs2
       = ([], Exit 0 msg)"
    by blast
  with found have "cmd_Run e ?c fs2 = ([], None)"
    by (simp add: cmd_Run_def exec_Command_def)
  then have "DiffStr_run e ?c fs2 = Return ([], None)"
    by (simp add: DiffStr_run_def)
  with sel wl wm show ?thesis
    unfolding live merged files
    by (simp add: DiffStr_def tmp deferred_fst DiffStr_body_def ioutil_WriteFile_def Let_def)
qed

lemma DiffStr_identical_example:
  "fst (DiffStr env_ok ''n'' ''a'' ''a'' no_files) = Return ([], None)"
  by (simp add: program_defs sample_defs)

text \<open>
  Claim C9. The claim fails where \<^verbatim>\<open>icdiff\<close> is not installed. In \<open>env_no_icdiff\<close>
  every other tool is there and \<^verbatim>\<open>diff\<close> prints nothing and ends with status 0 on
  files of the same content, so the \<^verbatim>\<open>diff -u -N\<close> command of the else branch, had it
  been run, would have given the empty string and no error. \<open>DiffStr\<close> on identical
  texts does not return: the probe ends the process.
\<close>

theorem DiffStr_identical_fatal:
  "fst (DiffStr env_no_icdiff ''n'' ''a'' ''a'' no_files)
     = Fatal (''Command not found: icdiff'' @ [LF])
   \<and> DiffStr_run env_no_icdiff
       (exec_Command env_no_icdiff ''diff''
          [''-u'', ''-N'', ''/tmp/diff123/LIVE-n'', ''/tmp/diff123/MERGED-n''])
       (no_files(''/tmp/diff123'' \<mapsto> Dir, ''/tmp/diff123/LIVE-n'' \<mapsto> File ''a'',
          ''/tmp/diff123/MERGED-n'' \<mapsto> File ''a''))
     = Return ([], None)"
  by (simp add: program_defs sample_defs)

end
